theory Spec2Isabelle
  imports Complex_Main "HOL-Library.Word" "HOL-Library.Monad_Syntax"
begin

unbundle bit_operations_syntax

section \<open>Gates and fused gates\<close>

text \<open>
  The gate type itself lives in gate.h, which the fuser only reads: the fields used by
  fuser_basic.h are \<open>kind\<close>, \<open>time\<close>, \<open>num_qubits\<close>, \<open>qubits\<close> and \<open>unfusible\<close>.
  Of the gate kinds only \<open>gate::kMeasurement\<close> is told apart from the others; the matrix
  is never touched by the fuser. The C++ type \<open>unsigned\<close> is read as a natural number:
  times and qubit indices are only compared and used as indices.

  A \<open>const Gate*\<close> always points into the input vector, so a pointer is modelled by the
  position of the gate in the range \<open>[gfirst, glast)\<close>.
\<close>

datatype GateKind = kMeasurement | kGate nat

record Gate =
  kind :: GateKind
  time :: nat
  num_qubits :: nat
  qubits :: "nat list"
  unfusible :: bool

record GateFused =
  f_kind :: GateKind
  f_time :: nat
  f_num_qubits :: nat
  f_qubits :: "nat list"
  parent :: nat
  gates :: "nat list"

text \<open>
  \<open>operator[]\<close> of \<open>std::vector\<close> is undefined out of range. Every such read is
  written \<open>elem xs i\<close>; \<open>None\<close> stands for undefined behaviour and is propagated.
\<close>

definition elem :: "'a list \<Rightarrow> nat \<Rightarrow> 'a option" where
  "elem xs i = (if i < length xs then Some (xs ! i) else None)"

section \<open>BasicGateFuser\<close>

subsection \<open>MergeWithMeasurementTimes\<close>

text \<open>The innermost loop \<open>while (last < times.size() && times[last] <= prev) ++last\<close>.\<close>

function skip_le :: "nat list \<Rightarrow> nat \<Rightarrow> nat \<Rightarrow> nat" where
  "skip_le tms prev last_k =
     (if last_k < length tms \<and> tms ! last_k \<le> prev
      then skip_le tms prev (last_k + 1) else last_k)"
  by pat_completeness auto
termination
  by (relation "measure (\<lambda>(tms, prev, last_k). length tms - last_k)") auto

declare skip_le.simps [simp del]

lemma skip_le_ge: "last_k \<le> skip_le tms prev last_k"
proof (induction tms prev last_k rule: skip_le.induct)
  case (1 tms prev last_k)
  then show ?case
    by (subst skip_le.simps) (auto simp: le_Suc_eq)
qed

text \<open>
  The loop \<open>while (last < times.size() && times[last] <= gate.time)\<close>, which pushes the
  split time and skips the entries not above it.
\<close>

function push_splits :: "nat list \<Rightarrow> nat \<Rightarrow> nat \<Rightarrow> nat list \<Rightarrow> nat \<times> nat list" where
  "push_splits tms t last_k tms2 =
     (if last_k < length tms \<and> tms ! last_k \<le> t
      then push_splits tms t (skip_le tms (tms ! last_k) (last_k + 1))
             (tms2 @ [tms ! last_k])
      else (last_k, tms2))"
  by pat_completeness auto
termination
proof (relation "measure (\<lambda>(tms, t, last_k, tms2). length tms - last_k)")
  show "wf (measure (\<lambda>(tms, t, last_k, tms2). length tms - last_k))" by simp
next
  fix tms :: "nat list" and t last_k :: nat and tms2 :: "nat list"
  assume "last_k < length tms \<and> tms ! last_k \<le> t"
  moreover have "last_k + 1 \<le> skip_le tms (tms ! last_k) (last_k + 1)"
    by (rule skip_le_ge)
  ultimately show "((tms, t, skip_le tms (tms ! last_k) (last_k + 1),
                     tms2 @ [tms ! last_k]), (tms, t, last_k, tms2))
                   \<in> measure (\<lambda>(tms, t, last_k, tms2). length tms - last_k)"
    by simp arith
qed

declare push_splits.simps [simp del]

text \<open>One iteration of the loop over the gates; the state is \<open>(last, tms2)\<close>.\<close>

definition merge_step :: "nat list \<Rightarrow> Gate \<Rightarrow> nat \<times> nat list \<Rightarrow> nat \<times> nat list" where
  "merge_step tms gate st =
     (let (last_k, tms2) = st;
          tms2 = (if kind gate = kMeasurement
                       \<and> (tms2 = [] \<or> last tms2 < time gate)
                    then tms2 @ [time gate] else tms2)
      in if last_k < length tms \<and> time gate > tms ! last_k
         then push_splits tms (time gate) last_k tms2
         else (last_k, tms2))"

text \<open>
  \<open>MergeWithMeasurementTimes\<close> is only called on a non-empty range, so
  \<open>(glast - 1)->time\<close> is the time of the last gate.
\<close>

definition MergeWithMeasurementTimes :: "Gate list \<Rightarrow> nat list \<Rightarrow> nat list" where
  "MergeWithMeasurementTimes gs tms =
     (let (last_k, tms2) = fold (merge_step tms) gs (0, [])
      in if tms2 = [] \<or> last tms2 < time (last gs)
         then tms2 @ [time (last gs)] else tms2)"

subsection \<open>Advance, Done, NextGate\<close>

function Advance :: "Gate list \<Rightarrow> nat \<Rightarrow> nat list \<Rightarrow> nat list \<Rightarrow> nat \<times> nat list" where
  "Advance gs k wl ms =
     (if k < length wl \<and> num_qubits (gs ! (wl ! k)) = 1 \<and> \<not> unfusible (gs ! (wl ! k))
      then Advance gs (k + 1) wl (ms @ [wl ! k]) else (k, ms))"
  by pat_completeness auto
termination
  by (relation "measure (\<lambda>(gs, k, wl, ms). length wl - k)") auto

declare Advance.simps [simp del]

definition Done :: "Gate list \<Rightarrow> nat \<Rightarrow> nat \<Rightarrow> nat list \<Rightarrow> bool" where
  "Done gs k t wl = (k \<ge> length wl \<or> time (gs ! (wl ! k)) > t)"

definition NextGate :: "nat \<Rightarrow> nat list \<Rightarrow> nat \<Rightarrow> nat list \<Rightarrow> bool" where
  "NextGate k1 wl1 k2 wl2 = (k1 < length wl1 \<and> k2 < length wl2 \<and> wl1 ! k1 = wl2 ! k2)"


lemma Advance_ge: "k \<le> fst (Advance gs k wl ms)"
proof (induction gs k wl ms rule: Advance.induct)
  case (1 gs k wl ms)
  then show ?case
    by (subst Advance.simps) (auto simp: le_Suc_eq)
qed

subsection \<open>Filling \<open>gates_seq\<close> and \<open>gates_lat\<close> for one window\<close>

text \<open>
  \<open>measurement_gates\<close> is a \<open>std::map\<close> from times to vectors of gate pointers, only
  ever read through \<open>operator[]\<close>, which creates an empty vector for a missing key: a
  total function with default \<open>[]\<close>.
\<close>

type_synonym filling = "nat list \<times> nat list list \<times> (nat \<Rightarrow> nat list)"

definition lat_push :: "nat list list \<Rightarrow> nat \<Rightarrow> nat \<Rightarrow> nat list list option" where
  "lat_push lat q p = (if q < length lat then Some (lat[q := lat ! q @ [p]]) else None)"

text \<open>The classification of one gate (the pointer \<open>p\<close> to it is its position).\<close>

definition place :: "Gate \<Rightarrow> nat \<Rightarrow> filling \<Rightarrow> filling option" where
  "place gate p st =
     (let (gates_seq, gates_lat, measurement_gates) = st in
      if kind gate = kMeasurement then
        let mea_gates_at_time = measurement_gates (time gate) in
        Some (if mea_gates_at_time = [] then gates_seq @ [p] else gates_seq,
              gates_lat,
              measurement_gates (time gate := mea_gates_at_time @ [p]))
      else if num_qubits gate = 1 then
        do {
          q0 \<leftarrow> elem (qubits gate) 0;
          lat1 \<leftarrow> lat_push gates_lat q0 p;
          Some (if unfusible gate then gates_seq @ [p] else gates_seq, lat1,
                measurement_gates)
        }
      else if num_qubits gate = 2 then
        do {
          q0 \<leftarrow> elem (qubits gate) 0;
          lat1 \<leftarrow> lat_push gates_lat q0 p;
          q1 \<leftarrow> elem (qubits gate) 1;
          lat2 \<leftarrow> lat_push lat1 q1 p;
          Some (gates_seq @ [p], lat2, measurement_gates)
        }
      else Some st)"

text \<open>
  The loop \<open>for (; gate_it < glast; ++gate_it)\<close> runs over the gates not yet consumed:
  the list argument is the range \<open>[gate_it, glast)\<close> and \<open>p\<close> the position of its
  first gate. It stops at the first gate beyond the window (\<open>Filled\<close>, with the new
  \<open>gate_it\<close>) or at a gate older than its predecessor (\<open>Unordered\<close>).
\<close>

datatype fill_result = Unordered | Filled nat filling

fun fill :: "nat \<Rightarrow> nat \<Rightarrow> nat \<Rightarrow> filling \<Rightarrow> Gate list \<Rightarrow> fill_result option" where
  "fill t_l prev_time p st [] = Some (Filled p st)"
| "fill t_l prev_time p st (gate # rest) =
     (if time gate > t_l then Some (Filled p st)
      else if time gate < prev_time then Some Unordered
      else do {
        st' \<leftarrow> place gate p st;
        fill t_l (time gate) (p + 1) st' rest
      })"

subsection \<open>Fusing the gates of one window\<close>

text \<open>The state of the loop over \<open>gates_seq\<close>: \<open>last\<close>, the delayed measurement gate and
  the fused gates emitted so far.\<close>

type_synonym fusing = "nat list \<times> nat option \<times> GateFused list"

text \<open>One pass through the body of the \<open>do ... while\<close> loop of the two-qubit branch.\<close>

definition fuse2_body ::
  "Gate list \<Rightarrow> nat list list \<Rightarrow> nat \<Rightarrow> nat \<Rightarrow> nat list \<times> nat list
     \<Rightarrow> (nat list \<times> nat list) option" where
  "fuse2_body gs gates_lat q0 q1 st =
     (let (last_v, ms) = st in
      do {
        wl0 \<leftarrow> elem gates_lat q0;
        wl1 \<leftarrow> elem gates_lat q1;
        l0 \<leftarrow> elem last_v q0;
        let (k0, ms) = Advance gs l0 wl0 ms;
        let last_v = last_v[q0 := k0];
        l1 \<leftarrow> elem last_v q1;
        let (k1, ms) = Advance gs l1 wl1 ms;
        let last_v = last_v[q1 := k1];
        l0 \<leftarrow> elem last_v q0;
        p \<leftarrow> elem wl0 l0;
        let ms = ms @ [p];
        let (k0, ms) = Advance gs (l0 + 1) wl0 ms;
        let last_v = last_v[q0 := k0];
        l1 \<leftarrow> elem last_v q1;
        let (k1, ms) = Advance gs (l1 + 1) wl1 ms;
        let last_v = last_v[q1 := k1];
        Some (last_v, ms)
      })"


lemma fuse2_body_Some:
  assumes "fuse2_body gs gates_lat q0 q1 (last_v, ms) = Some (last_v', ms')"
  shows "q0 < length gates_lat \<and> q1 < length gates_lat
         \<and> q0 < length last_v \<and> q1 < length last_v"
  using assms
  by (auto simp: fuse2_body_def elem_def Let_def case_prod_beta
           split: Option.bind_splits if_splits)

lemma fuse2_body_grows:
  assumes "fuse2_body gs gates_lat q0 q1 (last_v, ms) = Some (last_v', ms')"
  shows "last_v ! q0 < last_v' ! q0"
proof -
  define wl0 where "wl0 = gates_lat ! q0"
  define wl1 where "wl1 = gates_lat ! q1"
  from assms have q0: "q0 < length last_v" using fuse2_body_Some by blast
  define a where "a = Advance gs (last_v ! q0) wl0 ms"
  define v1 where "v1 = last_v[q0 := fst a]"
  define b where "b = Advance gs (v1 ! q1) wl1 (snd a)"
  define v2 where "v2 = v1[q1 := fst b]"
  define c where "c = Advance gs (v2 ! q0 + 1) wl0 (snd b @ [wl0 ! (v2 ! q0)])"
  define v3 where "v3 = v2[q0 := fst c]"
  define d where "d = Advance gs (v3 ! q1 + 1) wl1 (snd c)"
  have res: "last_v' = v3[q1 := fst d]"
    using assms
    by (auto simp: fuse2_body_def elem_def Let_def case_prod_beta
                   a_def v1_def b_def v2_def c_def v3_def d_def wl0_def wl1_def
             split: Option.bind_splits if_splits)
  have 1: "last_v ! q0 \<le> v1 ! q0"
    using q0 Advance_ge [of "last_v ! q0" gs wl0 ms] by (simp add: v1_def a_def)
  have 2: "v1 ! q0 \<le> v2 ! q0"
    using q0 Advance_ge [of "v1 ! q1" gs wl1 "snd a"]
    by (cases "q0 = q1") (simp_all add: v2_def b_def v1_def)
  have 3: "v2 ! q0 < v3 ! q0"
    using q0 Advance_ge [of "v2 ! q0 + 1" gs wl0 "snd b @ [wl0 ! (v2 ! q0)]"]
    by (simp add: v3_def c_def v2_def v1_def)
  have 4: "v3 ! q0 \<le> last_v' ! q0"
    using q0 Advance_ge [of "v3 ! q1 + 1" gs wl1 "snd c"]
    by (cases "q0 = q1") (simp_all add: res d_def v3_def v2_def v1_def)
  from 1 2 3 4 show ?thesis by linarith
qed

text \<open>
  The \<open>do ... while (NextGate(...))\<close> loop. It ends because \<open>last[q0]\<close> grows in every
  pass and \<open>NextGate\<close> holds only while it is below the length of \<open>gates_lat[q0]\<close>.
\<close>

function fuse2_loop ::
  "Gate list \<Rightarrow> nat list list \<Rightarrow> nat \<Rightarrow> nat \<Rightarrow> nat list \<times> nat list
     \<Rightarrow> (nat list \<times> nat list) option" where
  "fuse2_loop gs gates_lat q0 q1 st =
     (case fuse2_body gs gates_lat q0 q1 st of
        None \<Rightarrow> None
      | Some st' \<Rightarrow>
          if NextGate (fst st' ! q0) (gates_lat ! q0) (fst st' ! q1) (gates_lat ! q1)
          then fuse2_loop gs gates_lat q0 q1 st' else Some st')"
  by pat_completeness auto
termination
proof (relation "measure (\<lambda>(gs, gates_lat, q0, q1, st). length (gates_lat ! q0) - fst st ! q0)")
  show "wf (measure (\<lambda>(gs, gates_lat, q0, q1, st). length (gates_lat ! q0) - fst st ! q0))"
    by simp
next
  fix gs :: "Gate list" and gates_lat :: "nat list list" and q0 q1 :: nat
    and st st' :: "nat list \<times> nat list"
  assume b: "fuse2_body gs gates_lat q0 q1 st = Some st'"
    and n: "NextGate (fst st' ! q0) (gates_lat ! q0) (fst st' ! q1) (gates_lat ! q1)"
  from b have "fst st ! q0 < fst st' ! q0"
    using fuse2_body_grows [of gs gates_lat q0 q1 "fst st" "snd st" "fst st'" "snd st'"]
    by simp
  moreover from n have "fst st' ! q0 < length (gates_lat ! q0)"
    by (simp add: NextGate_def)
  ultimately show "((gs, gates_lat, q0, q1, st'), (gs, gates_lat, q0, q1, st))
      \<in> measure (\<lambda>(gs, gates_lat, q0, q1, st). length (gates_lat ! q0) - fst st ! q0)"
    by simp
qed

declare fuse2_loop.simps [simp del]

text \<open>The body of \<open>for (auto pgate : gates_seq)\<close>.\<close>

definition fuse_step ::
  "Gate list \<Rightarrow> nat list list \<Rightarrow> nat \<Rightarrow> fusing \<Rightarrow> fusing option" where
  "fuse_step gs gates_lat pgate st =
     (let (last_v, delayed_measurement_gate, gates_fused) = st; g = gs ! pgate in
      if kind g = kMeasurement then Some (last_v, Some pgate, gates_fused)
      else if num_qubits g = 1 then
        do {
          q0 \<leftarrow> elem (qubits g) 0;
          wl \<leftarrow> elem gates_lat q0;
          l0 \<leftarrow> elem last_v q0;
          let (k, ms) = Advance gs l0 wl [];
          p \<leftarrow> elem wl k;
          let (k, ms) = Advance gs (k + 1) wl (ms @ [p]);
          Some (last_v[q0 := k], delayed_measurement_gate,
                gates_fused @ [\<lparr>f_kind = kind g, f_time = time g, f_num_qubits = 1,
                                f_qubits = [q0], parent = pgate, gates = ms\<rparr>])
        }
      else if num_qubits g = 2 then
        do {
          q0 \<leftarrow> elem (qubits g) 0;
          q1 \<leftarrow> elem (qubits g) 1;
          wl \<leftarrow> elem gates_lat q0;
          l0 \<leftarrow> elem last_v q0;
          if Done gs l0 (time g) wl then Some st
          else do {
            (last_v, ms) \<leftarrow> fuse2_loop gs gates_lat q0 q1 (last_v, []);
            Some (last_v, delayed_measurement_gate,
                  gates_fused @ [\<lparr>f_kind = kind g, f_time = time g, f_num_qubits = 2,
                                  f_qubits = [q0, q1], parent = pgate, gates = ms\<rparr>])
          }
        }
      else Some st)"

fun fuse_seq :: "Gate list \<Rightarrow> nat list list \<Rightarrow> nat list \<Rightarrow> fusing \<Rightarrow> fusing option" where
  "fuse_seq gs gates_lat [] st = Some st"
| "fuse_seq gs gates_lat (pgate # rest) st =
     do { st' \<leftarrow> fuse_step gs gates_lat pgate st; fuse_seq gs gates_lat rest st' }"

text \<open>The loop over the qubits that emits the orphaned gates; \<open>last\<close> is only read.\<close>

definition orphan_step ::
  "Gate list \<Rightarrow> nat list list \<Rightarrow> nat list \<Rightarrow> nat \<Rightarrow> GateFused list
     \<Rightarrow> GateFused list option" where
  "orphan_step gs gates_lat last_v q gates_fused =
     do {
       l \<leftarrow> elem last_v q;
       wl \<leftarrow> elem gates_lat q;
       if l = length wl then Some gates_fused
       else do {
         pgate \<leftarrow> elem wl l;
         let (l', ms) = Advance gs (l + 1) wl [pgate];
         Some (gates_fused @ [\<lparr>f_kind = kind (gs ! pgate), f_time = time (gs ! pgate),
                                f_num_qubits = 1, f_qubits = [q], parent = pgate,
                                gates = ms\<rparr>])
       }
     }"

fun orphans ::
  "Gate list \<Rightarrow> nat list list \<Rightarrow> nat list \<Rightarrow> nat list \<Rightarrow> GateFused list
     \<Rightarrow> GateFused list option" where
  "orphans gs gates_lat last_v [] gates_fused = Some gates_fused"
| "orphans gs gates_lat last_v (q # qs) gates_fused =
     do {
       gates_fused' \<leftarrow> orphan_step gs gates_lat last_v q gates_fused;
       orphans gs gates_lat last_v qs gates_fused'
     }"

text \<open>
  The fused measurement gate: the loop over \<open>mea_gates_at_time\<close> adds the qubit counts
  (in \<open>unsigned\<close> arithmetic) and appends the qubits.
\<close>

definition add_measurement :: "Gate list \<Rightarrow> nat \<Rightarrow> GateFused \<Rightarrow> GateFused" where
  "add_measurement gs pgate gate_f =
     gate_f\<lparr>f_num_qubits := (f_num_qubits gate_f + num_qubits (gs ! pgate)) mod 2 ^ 32,
            f_qubits := f_qubits gate_f @ qubits (gs ! pgate)\<rparr>"

definition emit_measurement ::
  "Gate list \<Rightarrow> (nat \<Rightarrow> nat list) \<Rightarrow> nat option \<Rightarrow> GateFused list \<Rightarrow> GateFused list" where
  "emit_measurement gs measurement_gates delayed_measurement_gate gates_fused =
     (case delayed_measurement_gate of
        None \<Rightarrow> gates_fused
      | Some pgate \<Rightarrow>
          gates_fused @
            [fold (add_measurement gs) (measurement_gates (time (gs ! pgate)))
               \<lparr>f_kind = kind (gs ! pgate), f_time = time (gs ! pgate), f_num_qubits = 0,
                f_qubits = [], parent = pgate, gates = []\<rparr>])"

subsection \<open>FuseGates\<close>

text \<open>
  The result of \<open>FuseGates\<close>: what was sent to \<open>IO::errorf\<close>, and the returned vector.
\<close>

type_synonym fused_result = "string list \<times> GateFused list"

text \<open>
  The loop \<open>for (l = 0; l < times.size(); ++l)\<close>, on the entries of \<open>times\<close> not yet
  visited. \<open>gates_seq\<close>, \<open>gates_lat\<close> and \<open>last\<close> start afresh in every window;
  \<open>measurement_gates\<close>, \<open>gate_it\<close> and \<open>gates_fused\<close> are carried along.
\<close>

fun windows ::
  "nat \<Rightarrow> Gate list \<Rightarrow> nat list \<Rightarrow> nat \<Rightarrow> (nat \<Rightarrow> nat list) \<Rightarrow> GateFused list
     \<Rightarrow> fused_result option" where
  "windows n gs [] gate_it measurement_gates gates_fused = Some ([], gates_fused)"
| "windows n gs (t_l # tms) gate_it measurement_gates gates_fused =
     do {
       first \<leftarrow> elem gs gate_it;
       r \<leftarrow> fill t_l (time first) gate_it ([], replicate n [], measurement_gates)
              (drop gate_it gs);
       case r of
         Unordered \<Rightarrow> Some ([''gate times should be ordered.''], [])
       | Filled gate_it (gates_seq, gates_lat, measurement_gates) \<Rightarrow>
           do {
             (last_v, delayed_measurement_gate, gates_fused) \<leftarrow>
               fuse_seq gs gates_lat gates_seq (replicate n 0, None, gates_fused);
             gates_fused \<leftarrow> orphans gs gates_lat last_v [0..<n] gates_fused;
             let gates_fused =
               emit_measurement gs measurement_gates delayed_measurement_gate gates_fused;
             if gate_it = length gs then Some ([], gates_fused)
             else windows n gs tms gate_it measurement_gates gates_fused
           }
     }"

definition FuseGates :: "nat \<Rightarrow> Gate list \<Rightarrow> nat list \<Rightarrow> fused_result option" where
  "FuseGates n gs times_to_split_at =
     (if gs = [] then Some ([], [])
      else windows n gs (MergeWithMeasurementTimes gs times_to_split_at) 0 (\<lambda>t. []) [])"


text \<open>The overload without split times passes the empty list.\<close>

definition FuseGates_nosplit :: "nat \<Rightarrow> Gate list \<Rightarrow> fused_result option" where
  "FuseGates_nosplit n gs = FuseGates n gs []"

section \<open>QSimRunner\<close>

text \<open>
  \<open>QSimRunner\<close> is a template over \<open>IO\<close>, \<open>Fuser\<close> and \<open>Simulator\<close>. The state space
  and the simulator (statespace.h, gates_appl.h) are collaborators of the runner: what the
  runner does with them is recorded as the sequence of its calls, \<open>ApplyFusedGate\<close> on
  a fused gate and the measurement callback on \<open>cur_time_index\<close>, and whether
  \<open>CreateState\<close> returned a null state is an input. The calls of \<open>IO\<close> are logged
  apart; the seconds printed by \<open>messagef\<close> come from the clock and are left out.
\<close>

record Parameter =
  num_threads :: nat
  verbosity :: nat

record Circuit =
  circuit_num_qubits :: nat
  circuit_gates :: "Gate list"

datatype io_call = errorf string | messagef_gate_done nat | messagef_time_elapsed

datatype call = ApplyFusedGate GateFused | MeasureCb nat

text \<open>
  The loop \<open>for (i = 0; i < fused_gates.size(); ++i)\<close> on the fused gates from \<open>i\<close> on.
  \<open>times_to_measure_at[cur_time_index]\<close> is read in every pass, before the test.
\<close>

fun apply_loop ::
  "nat \<Rightarrow> nat list \<Rightarrow> nat \<Rightarrow> nat \<Rightarrow> GateFused list \<Rightarrow> (io_call list \<times> call list) option" where
  "apply_loop v times_to_measure_at i cur_time_index [] = Some ([], [])"
| "apply_loop v times_to_measure_at i cur_time_index (fg # rest) =
     do {
       t \<leftarrow> elem times_to_measure_at cur_time_index;
       let m = (rest = [] \<or> t < f_time (hd rest));
       (io, calls) \<leftarrow> apply_loop v times_to_measure_at (i + 1)
                        (if m then cur_time_index + 1 else cur_time_index) rest;
       Some ((if v > 1 then [messagef_gate_done i] else []) @ io,
             ApplyFusedGate fg # (if m then [MeasureCb cur_time_index] else []) @ calls)
     }"

type_synonym run_result = "io_call list \<times> call list \<times> bool"

definition Run ::
  "(nat \<Rightarrow> Gate list \<Rightarrow> nat list \<Rightarrow> fused_result option)
     \<Rightarrow> Parameter \<Rightarrow> nat list \<Rightarrow> Circuit \<Rightarrow> bool \<Rightarrow> run_result option" where
  "Run fuser param times_to_measure_at circuit state_is_null =
     (if state_is_null
      then Some ([errorf ''not enough memory: is the number of qubits too large?''], [], False)
      else do {
        (errs, fused_gates) \<leftarrow>
          fuser (circuit_num_qubits circuit) (circuit_gates circuit) times_to_measure_at;
        (io, calls) \<leftarrow> apply_loop (verbosity param) times_to_measure_at 0 0 fused_gates;
        Some (map errorf errs @ io
                @ (if verbosity param > 0 then [messagef_time_elapsed] else []),
              calls, True)
      })"

text \<open>The overload that measures only at the end: \<open>times_to_measure_at{maxtime}\<close>.\<close>

definition Run_maxtime ::
  "(nat \<Rightarrow> Gate list \<Rightarrow> nat list \<Rightarrow> fused_result option)
     \<Rightarrow> Parameter \<Rightarrow> nat \<Rightarrow> Circuit \<Rightarrow> bool \<Rightarrow> run_result option" where
  "Run_maxtime fuser param maxtime circuit state_is_null =
     Run fuser param [maxtime] circuit state_is_null"

text \<open>
  The overload on a state of the caller. It hands the scalar \<open>maxtime\<close> to the fuser,
  so its fuser is one that takes a scalar; it applies every fused gate and calls no
  measurement callback.
\<close>

fun apply_all :: "nat \<Rightarrow> nat \<Rightarrow> GateFused list \<Rightarrow> io_call list \<times> call list" where
  "apply_all v i [] = ([], [])"
| "apply_all v i (fg # rest) =
     (let (io, calls) = apply_all v (i + 1) rest
      in ((if v > 1 then [messagef_gate_done i] else []) @ io, ApplyFusedGate fg # calls))"

definition Run_state ::
  "(nat \<Rightarrow> Gate list \<Rightarrow> nat \<Rightarrow> fused_result option)
     \<Rightarrow> Parameter \<Rightarrow> nat \<Rightarrow> Circuit \<Rightarrow> run_result option" where
  "Run_state fuser param maxtime circuit =
     do {
       (errs, fused_gates) \<leftarrow>
         fuser (circuit_num_qubits circuit) (circuit_gates circuit) maxtime;
       let (io, calls) = apply_all (verbosity param) 0 fused_gates;
       Some (map errorf errs @ io
               @ (if verbosity param > 0 then [messagef_time_elapsed] else []),
             calls, True)
     }"


section \<open>StateSpaceAVX\<close>

text \<open>
  A state is a buffer of \<open>fp_type\<close> values with its size: a list. The base class keeps
  \<open>num_qubits_\<close> and \<open>raw_size_\<close>; the constructor passes
  \<open>MinimumRawSize(2 * (uint64_t{1} << num_qubits))\<close>, computed in 64 bits
  (the shift is meaningful below 64 qubits).
\<close>

record StateSpace =
  ss_num_qubits :: nat
  raw_size :: nat

definition MinimumRawSize :: "64 word \<Rightarrow> 64 word" where
  "MinimumRawSize raw = max 16 raw"

definition StateSpaceAVX :: "nat \<Rightarrow> StateSpace" where
  "StateSpaceAVX n =
     \<lparr>ss_num_qubits = n, raw_size = unat (MinimumRawSize (2 * push_bit n 1))\<rparr>"

text \<open>
  \<open>Base::for_.Run(n, f, args)\<close> calls \<open>f\<close> on every index below \<open>n\<close> and
  \<open>RunReduce\<close> also combines the values returned. The loop classes are not part of
  these files; the bodies used here touch block \<open>i\<close> of the buffer only, so the
  indices are taken in increasing order, as the sequential loop does.
\<close>

definition for_Run :: "nat \<Rightarrow> (nat \<Rightarrow> 's \<Rightarrow> 's) \<Rightarrow> 's \<Rightarrow> 's" where
  "for_Run n f s = fold f [0..<n] s"

definition for_RunReduce :: "nat \<Rightarrow> (nat \<Rightarrow> 'd) \<Rightarrow> ('d \<Rightarrow> 'd \<Rightarrow> 'd) \<Rightarrow> 'd \<Rightarrow> 'd" where
  "for_RunReduce n f op z = fold (\<lambda>i r. op r (f i)) [0..<n] z"

subsection \<open>InternalToNormalOrder and NormalToInternalOrder\<close>

text \<open>The two lambdas: \<open>p\<close> is the whole buffer and \<open>s = p + 16 * i\<close>.\<close>

definition i2n_f :: "nat \<Rightarrow> 'a list \<Rightarrow> 'a list" where
  "i2n_f i p =
     (let s = 16 * i;
          re = map (\<lambda>j. p ! (s + j + 1)) [0..<7];
          im = map (\<lambda>j. p ! (s + j + 8)) [0..<7]
      in fold (\<lambda>j p. p[s + 2 * j + 1 := im ! j, s + 2 * j + 2 := re ! j]) [0..<7] p)"

definition n2i_f :: "nat \<Rightarrow> 'a list \<Rightarrow> 'a list" where
  "n2i_f i p =
     (let s = 16 * i;
          im = map (\<lambda>j. p ! (s + 2 * j + 1)) [0..<7];
          re = map (\<lambda>j. p ! (s + 2 * j + 2)) [0..<7]
      in fold (\<lambda>j p. p[s + j + 1 := re ! j, s + j + 8 := im ! j]) [0..<7] p)"

definition InternalToNormalOrder :: "StateSpace \<Rightarrow> 'a::zero list \<Rightarrow> bool \<times> 'a list" where
  "InternalToNormalOrder ss state =
     (if length state \<noteq> raw_size ss then (False, state)
      else if ss_num_qubits ss = 1 then
        (let s = state;
             s = s[2 := s ! 1];
             s = s[1 := s ! 8];
             s = s[3 := s ! 9];
             s = fold (\<lambda>i s. s[i := 0]) [4..<16] s
         in (True, s))
      else if ss_num_qubits ss = 2 then
        (let s = state;
             s = s[6 := s ! 3];
             s = s[4 := s ! 2];
             s = s[2 := s ! 1];
             s = s[1 := s ! 8];
             s = s[3 := s ! 9];
             s = s[5 := s ! 10];
             s = s[7 := s ! 11];
             s = fold (\<lambda>i s. s[i := 0]) [8..<16] s
         in (True, s))
      else (True, for_Run (raw_size ss div 16) i2n_f state))"

definition NormalToInternalOrder :: "StateSpace \<Rightarrow> 'a::zero list \<Rightarrow> bool \<times> 'a list" where
  "NormalToInternalOrder ss state =
     (if length state \<noteq> raw_size ss then (False, state)
      else if ss_num_qubits ss = 1 then
        (let s = state;
             s = s[8 := s ! 1];
             s = s[1 := s ! 2];
             s = s[9 := s ! 3];
             s = fold (\<lambda>i s. s[i := 0, i + 8 := 0]) [2..<8] s
         in (True, s))
      else if ss_num_qubits ss = 2 then
        (let s = state;
             s = s[8 := s ! 1];
             s = s[9 := s ! 3];
             s = s[10 := s ! 5];
             s = s[11 := s ! 7];
             s = s[1 := s ! 2];
             s = s[2 := s ! 4];
             s = s[3 := s ! 6];
             s = fold (\<lambda>i s. s[i := 0, i + 8 := 0]) [4..<8] s
         in (True, s))
      else (True, for_Run (raw_size ss div 16) n2i_f state))"

subsection \<open>Arithmetic\<close>

text \<open>
  The kernels compute with \<open>float\<close> (\<open>fp_type\<close>) and \<open>double\<close>. Their arithmetic is a
  parameter of the model: whatever the operations are, the control flow below is the
  one of the source.
\<close>

record ('f, 'd) arith =
  f_zero :: 'f
  f_mul :: "'f \<Rightarrow> 'f \<Rightarrow> 'f"
  f_add :: "'f \<Rightarrow> 'f \<Rightarrow> 'f"
  f_fmadd :: "'f \<Rightarrow> 'f \<Rightarrow> 'f \<Rightarrow> 'f"
  to_double :: "'f \<Rightarrow> 'd"
  d_zero :: 'd
  d_add :: "'d \<Rightarrow> 'd \<Rightarrow> 'd"
  d_less :: "'d \<Rightarrow> 'd \<Rightarrow> bool"

text \<open>Exact arithmetic on the reals, for running the model on values such as 0 and 1.\<close>

definition exact :: "(real, real) arith" where
  "exact = \<lparr>f_zero = 0, f_mul = (*), f_add = (+), f_fmadd = (\<lambda>a b c. a * b + c),
            to_double = (\<lambda>x. x), d_zero = 0, d_add = (+), d_less = (<)\<rparr>"

subsection \<open>Sample\<close>

text \<open>\<open>re * re + im * im\<close> on two \<open>float\<close>s, added to a \<open>double\<close>.\<close>

definition norm2 :: "('f, 'd) arith \<Rightarrow> 'f \<Rightarrow> 'f \<Rightarrow> 'd" where
  "norm2 ar re im = to_double ar (f_add ar (f_mul ar re re) (f_mul ar im im))"

definition total_norm :: "('f, 'd) arith \<Rightarrow> nat \<Rightarrow> 'f list \<Rightarrow> 'd" where
  "total_norm ar sz p =
     fold (\<lambda>k. fold (\<lambda>j nrm. d_add ar nrm (norm2 ar (p ! (16 * k + j)) (p ! (16 * k + 8 + j))))
                  [0..<8])
          [0..<sz] (d_zero ar)"

text \<open>
  The vector \<open>rs\<close> comes from \<open>GenerateRandomValues(num_samples, seed, norm)\<close> of util.h,
  which is a parameter here. The emission loop reads \<open>rs[m]\<close> before it tests
  \<open>m < num_samples\<close>. A read past the end of \<open>rs\<close> is undefined behaviour: \<open>elem rs m\<close>
  is \<open>None\<close> there, and the loop has no result. The state of the loop is
  \<open>(m, bitstrings)\<close>; \<open>reads\<close> lists the indices at which \<open>rs\<close> has been read, the
  read that was out of range included.
\<close>

type_synonym emission = "nat \<times> nat list"

function emit_while ::
  "('f, 'd) arith \<Rightarrow> 'd list \<Rightarrow> nat \<Rightarrow> 'd \<Rightarrow> nat \<Rightarrow> emission \<Rightarrow> nat list
     \<Rightarrow> emission option \<times> nat list" where
  "emit_while ar rs num_samples csum x (m, bitstrings) reads =
     (case elem rs m of
        None \<Rightarrow> (None, reads @ [m])
      | Some r \<Rightarrow>
          if d_less ar r csum \<and> m < num_samples
          then emit_while ar rs num_samples csum x (m + 1, bitstrings @ [x]) (reads @ [m])
          else (Some (m, bitstrings), reads @ [m]))"
  by pat_completeness auto
termination
  by (relation "measure (\<lambda>(ar, rs, num_samples, csum, x, (m, bitstrings), reads).
                  num_samples - m)") auto

declare emit_while.simps [simp del]

text \<open>The two loops over the amplitudes. Once a read of \<open>rs\<close> was out of range nothing
  more is defined.\<close>

definition emit_loops ::
  "('f, 'd) arith \<Rightarrow> 'd list \<Rightarrow> nat \<Rightarrow> nat \<Rightarrow> 'f list \<Rightarrow> emission option \<times> nat list" where
  "emit_loops ar rs num_samples sz p =
     snd (fold (\<lambda>k. fold (\<lambda>j (csum, e, reads).
                  case e of
                    None \<Rightarrow> (csum, None, reads)
                  | Some st \<Rightarrow>
                      let csum = d_add ar csum
                                   (norm2 ar (p ! (16 * k + j)) (p ! (16 * k + 8 + j)))
                      in (csum, emit_while ar rs num_samples csum (8 * k + j) st reads))
                [0..<8])
           [0..<sz] (d_zero ar, Some (0, []), []))"

text \<open>\<open>Sample\<close> with the indices at which it has read \<open>rs\<close>; the result is \<open>None\<close> when
  the behaviour is undefined.\<close>

definition sample_trace ::
  "('f, 'd) arith \<Rightarrow> (nat \<Rightarrow> nat \<Rightarrow> 'd \<Rightarrow> 'd list) \<Rightarrow> StateSpace
     \<Rightarrow> 'f list \<Rightarrow> nat \<Rightarrow> nat \<Rightarrow> nat list option \<times> nat list" where
  "sample_trace ar GenerateRandomValues ss state num_samples seed =
     (if length state = raw_size ss \<and> num_samples > 0 then
        let sz = raw_size ss div 16;
            nrm = total_norm ar sz state;
            rs = GenerateRandomValues num_samples seed nrm;
            (e, reads) = emit_loops ar rs num_samples sz state
        in (map_option snd e, reads)
      else (Some [], []))"

definition Sample ::
  "('f, 'd) arith \<Rightarrow> (nat \<Rightarrow> nat \<Rightarrow> 'd \<Rightarrow> 'd list) \<Rightarrow> StateSpace
     \<Rightarrow> 'f list \<Rightarrow> nat \<Rightarrow> nat \<Rightarrow> nat list option" where
  "Sample ar GenerateRandomValues ss state num_samples seed =
     fst (sample_trace ar GenerateRandomValues ss state num_samples seed)"

subsection \<open>CollapseState\<close>

text \<open>
  A 256-bit integer register is four 64-bit lanes, read by \<open>_mm256_blend_epi32\<close> and
  \<open>_mm256_maskload_ps\<close> as eight 32-bit lanes (little endian: the low half first).
\<close>

definition cmpeq_epi64 :: "64 word \<Rightarrow> 64 word \<Rightarrow> 64 word" where
  "cmpeq_epi64 a b = (if a = b then - 1 else 0)"

definition epi32 :: "64 word list \<Rightarrow> 32 word list" where
  "epi32 v = concat (map (\<lambda>x. [ucast x, ucast (drop_bit 32 x)]) v)"

definition blend_epi32 :: "32 word list \<Rightarrow> 32 word list \<Rightarrow> nat \<Rightarrow> 32 word list" where
  "blend_epi32 a b imm8 = map (\<lambda>j. if bit imm8 j then b ! j else a ! j) [0..<8]"

definition GetZeroMaskAVX :: "64 word \<Rightarrow> 64 word \<Rightarrow> 64 word \<Rightarrow> 32 word list" where
  "GetZeroMaskAVX i msk bits =
     (let s1 = [i + 0, i + 2, i + 4, i + 6];
          s2 = [i + 1, i + 3, i + 5, i + 7];
          s1 = map (\<lambda>x. x AND msk) s1;
          s2 = map (\<lambda>x. x AND msk) s2;
          s1 = map (\<lambda>x. cmpeq_epi64 x bits) s1;
          s2 = map (\<lambda>x. cmpeq_epi64 x bits) s2
      in blend_epi32 (epi32 s1) (epi32 s2) 170)"

text \<open>\<open>_mm256_maskload_ps(p, ml)\<close> loads the lanes whose mask has the top bit set and
  zeroes the others; \<open>_mm256_store_ps(p, v)\<close> writes eight lanes.\<close>

definition maskload_ps :: "('f, 'd) arith \<Rightarrow> 'f list \<Rightarrow> nat \<Rightarrow> 32 word list \<Rightarrow> 'f list" where
  "maskload_ps ar p off ml = map (\<lambda>j. if bit (ml ! j) 31 then p ! (off + j) else f_zero ar) [0..<8]"

definition store_ps :: "'f list \<Rightarrow> nat \<Rightarrow> 'f list \<Rightarrow> 'f list" where
  "store_ps p off v = fold (\<lambda>j p. p[off + j := v ! j]) [0..<8] p"

definition HorizontalSumAVX :: "('f, 'd) arith \<Rightarrow> 'f list \<Rightarrow> 'd" where
  "HorizontalSumAVX ar buf =
     to_double ar (f_add ar (f_add ar (f_add ar (f_add ar (f_add ar (f_add ar (f_add ar
       (buf ! 0) (buf ! 1)) (buf ! 2)) (buf ! 3)) (buf ! 4)) (buf ! 5)) (buf ! 6)) (buf ! 7))"

record MeasurementResult =
  mr_mask :: "64 word"
  mr_bits :: "64 word"

definition collapse_f1 :: "('f, 'd) arith \<Rightarrow> 64 word \<Rightarrow> 64 word \<Rightarrow> 'f list \<Rightarrow> nat \<Rightarrow> 'd" where
  "collapse_f1 ar msk bits p i =
     (let ml = GetZeroMaskAVX (8 * of_nat i) msk bits;
          re = maskload_ps ar p (16 * i) ml;
          im = maskload_ps ar p (16 * i + 8) ml;
          s1 = map (\<lambda>j. f_fmadd ar (im ! j) (im ! j) (f_mul ar (re ! j) (re ! j))) [0..<8]
      in HorizontalSumAVX ar s1)"

definition collapse_f2 ::
  "('f, 'd) arith \<Rightarrow> 64 word \<Rightarrow> 64 word \<Rightarrow> 'f \<Rightarrow> nat \<Rightarrow> 'f list \<Rightarrow> 'f list" where
  "collapse_f2 ar msk bits renorm i p =
     (let ml = GetZeroMaskAVX (8 * of_nat i) msk bits;
          re = maskload_ps ar p (16 * i) ml;
          im = maskload_ps ar p (16 * i + 8) ml;
          re = map (\<lambda>x. f_mul ar x renorm) re;
          im = map (\<lambda>x. f_mul ar x renorm) im;
          p = store_ps p (16 * i) re
      in store_ps p (16 * i + 8) im)"

text \<open>
  \<open>rsqrt\<close> stands for the map from \<open>norm\<close> to \<open>1.0 / std::sqrt(norm)\<close>, narrowed to
  \<open>float\<close> by \<open>_mm256_set1_ps\<close>; like the arithmetic it is a parameter.
\<close>

definition CollapseState ::
  "('f, 'd) arith \<Rightarrow> ('d \<Rightarrow> 'f) \<Rightarrow> StateSpace \<Rightarrow> MeasurementResult \<Rightarrow> 'f list
     \<Rightarrow> bool \<times> 'f list" where
  "CollapseState ar rsqrt ss mr state =
     (if length state \<noteq> raw_size ss then (False, state)
      else
        let nrm = for_RunReduce (raw_size ss div 16)
                     (collapse_f1 ar (mr_mask mr) (mr_bits mr) state) (d_add ar) (d_zero ar);
            renorm = rsqrt nrm
        in (True, for_Run (raw_size ss div 16) (collapse_f2 ar (mr_mask mr) (mr_bits mr) renorm)
                    state))"

text \<open>\<open>GetAmpl\<close>: amplitude \<open>i\<close> is stored at \<open>k = 16 * (i / 8) + i % 8\<close> and
  \<open>k + 8\<close>.\<close>

definition GetAmpl :: "'f list \<Rightarrow> nat \<Rightarrow> 'f \<times> 'f" where
  "GetAmpl state i = (let k = 16 * (i div 8) + i mod 8 in (state ! k, state ! (k + 8)))"


text \<open>
  The amplitudes that survive a measurement result are those at the basis indices \<open>i\<close>
  with \<open>(i & mask) == bits\<close>. \<open>no_survivor\<close> says that each of them is zero; the
  buffer holds \<open>raw_size / 2\<close> amplitudes.
\<close>

definition no_survivor :: "StateSpace \<Rightarrow> MeasurementResult \<Rightarrow> real list \<Rightarrow> bool" where
  "no_survivor ss mr state =
     list_all (\<lambda>i. of_nat i AND mr_mask mr \<noteq> mr_bits mr \<or> GetAmpl state i = (0, 0))
       [0..<raw_size ss div 2]"

section \<open>Example circuits\<close>

definition single :: "nat \<Rightarrow> nat \<Rightarrow> bool \<Rightarrow> Gate" where
  "single t q u = \<lparr>kind = kGate 0, time = t, num_qubits = 1, qubits = [q], unfusible = u\<rparr>"

definition two :: "nat \<Rightarrow> nat \<Rightarrow> nat \<Rightarrow> Gate" where
  "two t q0 q1 =
     \<lparr>kind = kGate 1, time = t, num_qubits = 2, qubits = [q0, q1], unfusible = False\<rparr>"

definition measurement :: "nat \<Rightarrow> nat list \<Rightarrow> Gate" where
  "measurement t qs =
     \<lparr>kind = kMeasurement, time = t, num_qubits = length qs, qubits = qs, unfusible = False\<rparr>"

text \<open>Three gates on one qubit at times 0, 1, 2, the middle one unfusible.\<close>

definition unfusible_split :: "Gate list" where
  "unfusible_split = [single 0 0 False, single 1 0 True, single 2 0 False]"

text \<open>Three gates on one qubit at times 0, 2, 1.\<close>

definition out_of_order :: "Gate list" where
  "out_of_order = [single 0 0 False, single 2 0 False, single 1 0 False]"

text \<open>Three gates on one qubit at times 1, 0, 1: the second is older than the first and
  lies in the same window.\<close>

definition out_of_order_caught :: "Gate list" where
  "out_of_order_caught = [single 1 0 False, single 0 0 False, single 1 0 False]"

section \<open>The fuser on the scenarios of the specification\<close>

text \<open>
  C8, as stated: on the unfusible-split input (one qubit, three single-qubit gates at
  times 0, 1, 2, the middle one unfusible) the fuser emits exactly two fused gates.
  It does not: the returned list does not have two elements.
\<close>

theorem C8_two_fused_gates_counterexample:
  "\<not> (\<exists>errs fs. FuseGates_nosplit 1 unfusible_split = Some (errs, fs) \<and> length fs = 2)"
proof -
  have "FuseGates_nosplit 1 unfusible_split =
          Some ([], [\<lparr>f_kind = kGate 0, f_time = 1, f_num_qubits = 1, f_qubits = [0],
                      parent = 1, gates = [0, 1, 2]\<rparr>])"
    by code_simp
  then show ?thesis by simp
qed

text \<open>
  C8, amended: for three single-qubit gates of any (non-measurement) kinds on qubit 0 at
  times 0, 1, 2, the middle one unfusible and the others fusible, the fuser reports no
  error and emits exactly one fused gate. It is anchored at the unfusible gate (pointer
  1, from which it takes kind and time) and its members are the gate at time 0, the
  anchor and the gate at time 2, in this order.
\<close>

theorem C8_unfusible_split:
  "FuseGates_nosplit 1
     [\<lparr>kind = kGate k0, time = 0, num_qubits = 1, qubits = [0], unfusible = False\<rparr>,
      \<lparr>kind = kGate k1, time = 1, num_qubits = 1, qubits = [0], unfusible = True\<rparr>,
      \<lparr>kind = kGate k2, time = 2, num_qubits = 1, qubits = [0], unfusible = False\<rparr>]
   = Some ([], [\<lparr>f_kind = kGate k1, f_time = 1, f_num_qubits = 1, f_qubits = [0],
                 parent = 1, gates = [0, 1, 2]\<rparr>])"
  by code_simp

text \<open>
  C1 says that every input with a gate older than its predecessor makes the fuser return
  the empty list and report an error. The scenario of the specification itself, times
  0, 2, 1 (one qubit, no split times), is not caught: the only window ends at the time
  of the last gate, 1, so the loop leaves at the gate of time 2 before comparing the
  third gate with it. The fuser reports nothing and returns one fused gate holding the
  first gate; the other two gates are dropped.
\<close>

theorem C1_out_of_order_not_detected:
  "FuseGates_nosplit 1 out_of_order =
     Some ([], [\<lparr>f_kind = kGate 0, f_time = 0, f_num_qubits = 1, f_qubits = [0],
                 parent = 0, gates = [0]\<rparr>])"
  by code_simp

text \<open>Where both gates lie in one window the check does fire.\<close>

lemma out_of_order_caught_fails:
  "FuseGates 1 out_of_order_caught [1] = Some ([''gate times should be ordered.''], [])"
  by code_simp

section \<open>The runner\<close>

text \<open>
  C2 says that the runner stops at the first error of a component and returns false.
  On the circuit with times 1, 0, 1 the fuser reports that the gate times are not
  ordered and returns nothing; the runner goes on, applies no gate, calls no measurement
  callback and returns true.
\<close>

theorem C2_run_true_after_fuser_error:
  "Run FuseGates \<lparr>num_threads = 1, verbosity = 0\<rparr> [1]
       \<lparr>circuit_num_qubits = 1, circuit_gates = out_of_order_caught\<rparr> False
     = Some ([errorf ''gate times should be ordered.''], [], True)"
  by code_simp


section \<open>Sampling and collapse\<close>

text \<open>The state \<open>|0>\<close> of one qubit, as \<open>SetStateZero\<close> leaves it: sixteen values, the
  first one 1.\<close>

definition zero_state_1 :: "real list" where
  "zero_state_1 = 1 # replicate 15 0"

text \<open>A generator of random values whose draws are all 0.\<close>

definition draws_zero :: "nat \<Rightarrow> nat \<Rightarrow> real \<Rightarrow> real list" where
  "draws_zero num_samples seed nrm = replicate num_samples 0"

text \<open>
  C3, as stated: with zero surviving mass \<open>CollapseState\<close> reports an error. On the
  state \<open>|0>\<close> of one qubit and the measurement result "qubit 0 is 1" no surviving
  amplitude is nonzero, and \<open>CollapseState\<close> returns true.
\<close>

theorem C3_zero_mass_counterexample:
  "length zero_state_1 = raw_size (StateSpaceAVX 1)
   \<and> no_survivor (StateSpaceAVX 1) \<lparr>mr_mask = 1, mr_bits = 1\<rparr> zero_state_1
   \<and> fst (CollapseState exact (\<lambda>nrm. 1 / sqrt nrm) (StateSpaceAVX 1)
            \<lparr>mr_mask = 1, mr_bits = 1\<rparr> zero_state_1)"
proof -
  have 1: "length zero_state_1 = raw_size (StateSpaceAVX 1)" by code_simp
  have 2: "no_survivor (StateSpaceAVX 1) \<lparr>mr_mask = 1, mr_bits = 1\<rparr> zero_state_1"
    by code_simp
  from 1 2 show ?thesis by (simp add: CollapseState_def Let_def)
qed

text \<open>
  C3, amended: \<open>CollapseState\<close> returns false exactly when the size of the buffer is
  not the raw size of the state space. For a buffer of the right size it returns true
  whatever the measurement result and the surviving mass are, zero included, and
  whatever the arithmetic computes.
\<close>

theorem C3_collapse_fails_only_on_size:
  "fst (CollapseState ar rsqrt ss mr state) = (length state = raw_size ss)"
  by (simp add: CollapseState_def Let_def)

subsection \<open>The reads of the random values\<close>

text \<open>A generator that returns one value more than it is asked for, all draws 0.\<close>

definition draws_zero_spare :: "nat \<Rightarrow> nat \<Rightarrow> real \<Rightarrow> real list" where
  "draws_zero_spare num_samples seed nrm = replicate (num_samples + 1) 0"

text \<open>
  C10 says that \<open>rs\<close> is only read at indices below \<open>num_samples\<close>. One sample of
  the state \<open>|0>\<close> of one qubit, with the draw 0: the first amplitude emits the sample,
  and the loop test then reads \<open>rs[1]\<close>. Index 1 is \<open>num_samples\<close>. When \<open>rs\<close> holds the
  one value drawn, the read is past its end and \<open>Sample\<close> has no defined result. When
  \<open>rs\<close> holds a value more, \<open>Sample\<close> returns the sample, having read \<open>rs[1]\<close> there and
  once more for each of the seven remaining amplitudes of the block.
\<close>

theorem C10_read_at_num_samples:
  "sample_trace exact draws_zero (StateSpaceAVX 1) zero_state_1 1 seed = (None, [0, 1])
   \<and> sample_trace exact draws_zero_spare (StateSpaceAVX 1) zero_state_1 1 seed
       = (Some [0], [0, 1, 1, 1, 1, 1, 1, 1, 1])"
  by code_simp


section \<open>The calls of the runner\<close>

text \<open>
  C6: a successful run calls the measurement callback once per entry of
  \<open>times_to_measure_at\<close>, the call for an entry coming after the last fused gate of a
  time up to the entry and before any later fused gate is applied; \<open>Run\<close> is documented
  as "measuring all qubits at user-specified times". One gate at time 3 and the entries
  0 and 7: the run succeeds, the only callback is the one for the entry 0, and it comes
  after the gate of time 3 has been applied. The state is never measured at time 0, and
  the entry 7 gets no callback. The callback is only reached from inside the loop over
  the fused gates, after a gate has been applied, and the window of the entry 0 holds
  no gate.
\<close>

theorem C6_entry_without_callback:
  "Run FuseGates \<lparr>num_threads = 1, verbosity = 0\<rparr> [0, 7]
       \<lparr>circuit_num_qubits = 1, circuit_gates = [single 3 0 False]\<rparr> False
     = Some ([], [ApplyFusedGate \<lparr>f_kind = kGate 0, f_time = 3, f_num_qubits = 1,
                                   f_qubits = [0], parent = 0, gates = [0]\<rparr>,
                  MeasureCb 0], True)"
  by code_simp


section \<open>The two layouts of a state\<close>

text \<open>
  In the internal layout of a state of \<open>n < 3\<close> qubits only the first \<open>2 ^ n\<close> of the
  eight lanes hold amplitudes. \<open>padding_zero\<close> says that the other lanes, real and
  imaginary parts, are zero.
\<close>

definition padding_zero :: "nat \<Rightarrow> 'a::zero list \<Rightarrow> bool" where
  "padding_zero n state = list_all (\<lambda>i. state ! i = 0 \<and> state ! (i + 8) = 0) [2 ^ n..<8]"


text \<open>
  From three qubits on (and for no qubit) both conversions permute each block of sixteen
  values: position \<open>r\<close> of a block receives the value at position \<open>i2n_perm ! r\<close>, or
  \<open>n2i_perm ! r\<close>, of the same block.
\<close>

definition i2n_perm :: "nat list" where
  "i2n_perm = [0, 8, 1, 9, 2, 10, 3, 11, 4, 12, 5, 13, 6, 14, 7, 15]"

definition n2i_perm :: "nat list" where
  "n2i_perm = [0, 2, 4, 6, 8, 10, 12, 14, 1, 3, 5, 7, 9, 11, 13, 15]"

lemma upt_0_7: "[0..<7] = [0, 1, 2, 3, 4, 5, 6]"
  by code_simp

lemma less_16_cases:
  "r < 16 \<Longrightarrow> r = 0 \<or> r = 1 \<or> r = 2 \<or> r = 3 \<or> r = 4 \<or> r = 5 \<or> r = 6 \<or> r = 7 \<or> r = 8
     \<or> r = 9 \<or> r = 10 \<or> r = 11 \<or> r = 12 \<or> r = 13 \<or> r = 14 \<or> r = (15::nat)"
  by arith

lemma length_i2n_f [simp]: "length (i2n_f i p) = length p"
  by (simp add: i2n_f_def Let_def upt_0_7)

lemma length_n2i_f [simp]: "length (n2i_f i p) = length p"
  by (simp add: n2i_f_def Let_def upt_0_7)

lemma i2n_f_inside:
  assumes "16 * i + 16 \<le> length p" "r < 16"
  shows "i2n_f i p ! (16 * i + r) = p ! (16 * i + i2n_perm ! r)"
  using assms(1) less_16_cases [OF assms(2)]
  apply (elim disjE)
  apply (simp_all add: i2n_f_def Let_def upt_0_7 i2n_perm_def nth_list_update add.commute)
  apply (rule arg_cong [where f = "(!) p"], simp)+
  done

lemma i2n_f_outside:
  assumes "k div 16 \<noteq> i"
  shows "i2n_f i p ! k = p ! k"
  using assms by (auto simp: i2n_f_def Let_def upt_0_7 nth_list_update)

lemma n2i_f_inside:
  assumes "16 * i + 16 \<le> length p" "r < 16"
  shows "n2i_f i p ! (16 * i + r) = p ! (16 * i + n2i_perm ! r)"
  using assms(1) less_16_cases [OF assms(2)]
  apply (elim disjE)
  apply (simp_all add: n2i_f_def Let_def upt_0_7 n2i_perm_def nth_list_update add.commute)
  apply (rule arg_cong [where f = "(!) p"], simp)+
  done

lemma n2i_f_outside:
  assumes "k div 16 \<noteq> i"
  shows "n2i_f i p ! k = p ! k"
  using assms by (auto simp: n2i_f_def Let_def upt_0_7 nth_list_update)

lemma perm_inverse: "r < 16 \<Longrightarrow> i2n_perm ! (n2i_perm ! r) = r"
  using less_16_cases [of r] by (auto simp: i2n_perm_def n2i_perm_def)

lemma n2i_perm_less: "r < 16 \<Longrightarrow> n2i_perm ! r < 16"
  using less_16_cases [of r] by (auto simp: n2i_perm_def)

lemma i2n_perm_less: "r < 16 \<Longrightarrow> i2n_perm ! r < 16"
  using less_16_cases [of r] by (auto simp: i2n_perm_def)

lemma for_Run_Suc: "for_Run (Suc n) f s = f n (for_Run n f s)"
  by (simp add: for_Run_def)

lemma length_for_Run_i2n [simp]: "length (for_Run n i2n_f p) = length p"
  by (induction n) (simp_all add: for_Run_Suc, simp add: for_Run_def)

lemma length_for_Run_n2i [simp]: "length (for_Run n n2i_f p) = length p"
  by (induction n) (simp_all add: for_Run_Suc, simp add: for_Run_def)

lemma blk_div: "16 * n \<le> k \<Longrightarrow> k < 16 * Suc n \<Longrightarrow> k div 16 = (n::nat)"
  by (simp add: div_nat_eqI mult.commute)

text \<open>A loop over blocks, each block permuted by \<open>perm\<close>.\<close>

lemma for_Run_blocks_nth:
  assumes inside: "\<And>i p r. 16 * i + 16 \<le> length p \<Longrightarrow> r < 16 \<Longrightarrow>
                     f i p ! (16 * i + r) = p ! (16 * i + perm ! r)"
    and outside: "\<And>i p k. k div 16 \<noteq> i \<Longrightarrow> f i p ! k = p ! k"
    and len: "\<And>i p. length (f i p) = length (p :: 'a list)"
    and perm: "\<And>r. r < 16 \<Longrightarrow> perm ! r < (16::nat)"
  shows "16 * n \<le> length p \<Longrightarrow>
   for_Run n f p ! k =
     (if k < 16 * n then p ! (16 * (k div 16) + perm ! (k mod 16)) else p ! k)"
proof (induction n arbitrary: k)
  case 0
  then show ?case by (simp add: for_Run_def)
next
  case (Suc n)
  let ?q = "for_Run n f p"
  have lq: "length ?q = length p"
    by (induction n) (simp_all add: for_Run_Suc len, simp add: for_Run_def)
  with Suc.prems have len': "16 * n + 16 \<le> length ?q" by simp
  from Suc have IH:
    "?q ! j = (if j < 16 * n then p ! (16 * (j div 16) + perm ! (j mod 16)) else p ! j)" for j
    by simp
  show ?case
  proof (cases "k div 16 = n")
    case True
    then have k: "k = 16 * n + k mod 16" by presburger
    have r: "k mod 16 < 16" by simp
    have "\<not> 16 * n + perm ! (k mod 16) < 16 * n" by simp
    moreover have "f n ?q ! (16 * n + k mod 16) = ?q ! (16 * n + perm ! (k mod 16))"
      by (rule inside [OF len' r])
    then have "for_Run (Suc n) f p ! k = ?q ! (16 * n + perm ! (k mod 16))"
      using k by (simp add: for_Run_Suc)
    moreover have "k < 16 * Suc n" using True by presburger
    ultimately show ?thesis using True IH by simp
  next
    case False
    then have "for_Run (Suc n) f p ! k = ?q ! k"
      by (simp add: for_Run_Suc outside)
    moreover have "k < 16 * Suc n \<longleftrightarrow> k < 16 * n"
      using False blk_div [of n k] by auto
    ultimately show ?thesis using IH by simp
  qed
qed


lemma for_Run_i2n_nth:
  "16 * n \<le> length p \<Longrightarrow>
   for_Run n i2n_f p ! k =
     (if k < 16 * n then p ! (16 * (k div 16) + i2n_perm ! (k mod 16)) else p ! k)"
  by (rule for_Run_blocks_nth [where f = i2n_f and perm = i2n_perm])
     (simp_all add: i2n_f_inside i2n_f_outside i2n_perm_less)

lemma for_Run_n2i_nth:
  "16 * n \<le> length p \<Longrightarrow>
   for_Run n n2i_f p ! k =
     (if k < 16 * n then p ! (16 * (k div 16) + n2i_perm ! (k mod 16)) else p ! k)"
  by (rule for_Run_blocks_nth [where f = n2i_f and perm = n2i_perm])
     (simp_all add: n2i_f_inside n2i_f_outside n2i_perm_less)

lemma blk_jd: "r < 16 \<Longrightarrow> (16 * a + r) div 16 = (a::nat)"
  by simp

lemma blk_jm: "r < 16 \<Longrightarrow> (16 * a + r) mod 16 = (r::nat)"
  by simp

lemma blk_kd: "k < 16 * n \<Longrightarrow> k div 16 < (n::nat)"
  by (simp add: div_less_iff_less_mult mult.commute)

lemma blk_jb: "a < n \<Longrightarrow> r < 16 \<Longrightarrow> 16 * a + r < 16 * (n::nat)"
  by linarith

lemma round_trip_blocks:
  assumes "16 * n \<le> length p"
  shows "for_Run n n2i_f (for_Run n i2n_f p) = p"
proof (rule nth_equalityI)
  show "length (for_Run n n2i_f (for_Run n i2n_f p)) = length p" by simp
next
  fix k
  let ?q = "for_Run n i2n_f p"
  from assms have q: "16 * n \<le> length ?q" by simp
  show "for_Run n n2i_f ?q ! k = p ! k"
  proof (cases "k < 16 * n")
    case True
    let ?j = "16 * (k div 16) + n2i_perm ! (k mod 16)"
    have r: "n2i_perm ! (k mod 16) < 16" by (simp add: n2i_perm_less)
    have jd: "?j div 16 = k div 16" by (rule blk_jd [OF r])
    have jm: "?j mod 16 = n2i_perm ! (k mod 16)" by (rule blk_jm [OF r])
    have j: "?j < 16 * n" by (rule blk_jb [OF blk_kd [OF True] r])
    have "for_Run n n2i_f ?q ! k = ?q ! ?j"
      by (simp only: for_Run_n2i_nth [OF q] True if_True)
    also have "\<dots> = p ! (16 * (k div 16) + i2n_perm ! (n2i_perm ! (k mod 16)))"
      by (simp only: for_Run_i2n_nth [OF assms] j jd jm if_True)
    also have "\<dots> = p ! k"
      by (simp add: perm_inverse)
    finally show ?thesis .
  next
    case False
    then show ?thesis
      by (simp only: for_Run_n2i_nth [OF q] for_Run_i2n_nth [OF assms] if_False)
  qed
qed

lemma list16:
  "length xs = 16 \<Longrightarrow>
   \<exists>a0 a1 a2 a3 a4 a5 a6 a7 a8 a9 a10 a11 a12 a13 a14 a15.
     xs = [a0, a1, a2, a3, a4, a5, a6, a7, a8, a9, a10, a11, a12, a13, a14, a15]"
  by (auto simp: length_Suc_conv eval_nat_numeral)

lemma raw_size_1: "raw_size (StateSpaceAVX 1) = 16"
  by code_simp

lemma raw_size_2: "raw_size (StateSpaceAVX 2) = 16"
  by code_simp

lemma upt_4_16: "[4..<16] = [4, 5, 6, 7, 8, 9, 10, 11, 12, 13, 14, 15]"
  by code_simp

lemma upt_8_16: "[8..<16] = [8, 9, 10, 11, 12, 13, 14, 15]"
  by code_simp

lemma upt_2_8: "[2..<8] = [2, 3, 4, 5, 6, 7]"
  by code_simp

lemma upt_4_8: "[4..<8] = [4, 5, 6, 7]"
  by code_simp

lemma round_trip_1:
  fixes state :: "'a::zero list"
  assumes "length state = 16" "raw_size ss = 16" "ss_num_qubits ss = 1"
  shows "NormalToInternalOrder ss (snd (InternalToNormalOrder ss state)) = (True, state)
           \<longleftrightarrow> padding_zero 1 state"
proof -
  from list16 [OF assms(1)] obtain a0 a1 a2 a3 a4 a5 a6 a7 a8 a9 a10 a11 a12 a13 a14 a15 where
    s: "state = [a0, a1, a2, a3, a4, a5, a6, a7, a8, a9, a10, a11, a12, a13, a14, a15]"
    by blast
  show ?thesis
    unfolding s
    by (auto simp: InternalToNormalOrder_def NormalToInternalOrder_def assms(2,3) Let_def
          padding_zero_def upt_4_16 upt_2_8) 
qed

lemma round_trip_2:
  fixes state :: "'a::zero list"
  assumes "length state = 16" "raw_size ss = 16" "ss_num_qubits ss = 2"
  shows "NormalToInternalOrder ss (snd (InternalToNormalOrder ss state)) = (True, state)
           \<longleftrightarrow> padding_zero 2 state"
proof -
  from list16 [OF assms(1)] obtain a0 a1 a2 a3 a4 a5 a6 a7 a8 a9 a10 a11 a12 a13 a14 a15 where
    s: "state = [a0, a1, a2, a3, a4, a5, a6, a7, a8, a9, a10, a11, a12, a13, a14, a15]"
    by blast
  show ?thesis
    unfolding s
    by (auto simp: InternalToNormalOrder_def NormalToInternalOrder_def assms(2,3) Let_def
          padding_zero_def upt_8_16 upt_4_8) 
qed

text \<open>A one-qubit buffer with a nonzero value in a lane that holds no amplitude.\<close>

definition dirty_state_1 :: "real list" where
  "dirty_state_1 = [1, 0, 1] @ replicate 13 0"

text \<open>
  C7, as stated: on every buffer of the raw size, for every number of qubits,
  \<open>InternalToNormalOrder\<close> followed by \<open>NormalToInternalOrder\<close> gives back the buffer.
  For one qubit the two conversions overwrite the unused lanes with zero: a buffer with a
  nonzero unused lane does not come back.
\<close>

theorem C7_round_trip_counterexample:
  "length dirty_state_1 = raw_size (StateSpaceAVX 1)
   \<and> NormalToInternalOrder (StateSpaceAVX 1)
        (snd (InternalToNormalOrder (StateSpaceAVX 1) dirty_state_1))
       = (True, zero_state_1)
   \<and> dirty_state_1 \<noteq> zero_state_1"
  by code_simp

text \<open>
  C7, amended: on a buffer of the raw size \<open>InternalToNormalOrder\<close> succeeds, and
  \<open>NormalToInternalOrder\<close> after it succeeds and gives back the buffer for every number
  of qubits other than 1 and 2; for 1 and 2 qubits it does so exactly when the lanes
  that hold no amplitude are zero.
\<close>

theorem C7_round_trip:
  fixes state :: "'a::zero list"
  assumes "length state = raw_size (StateSpaceAVX n)"
  shows "fst (InternalToNormalOrder (StateSpaceAVX n) state)
    \<and> (NormalToInternalOrder (StateSpaceAVX n)
           (snd (InternalToNormalOrder (StateSpaceAVX n) state)) = (True, state)
         \<longleftrightarrow> (n = 1 \<or> n = 2 \<longrightarrow> padding_zero n state))"
proof -
  let ?ss = "StateSpaceAVX n"
  have nq: "ss_num_qubits ?ss = n" by (simp add: StateSpaceAVX_def)
  have 1: "fst (InternalToNormalOrder ?ss state)"
    using assms by (simp add: InternalToNormalOrder_def Let_def)
  have 2: "NormalToInternalOrder ?ss (snd (InternalToNormalOrder ?ss state)) = (True, state)
             \<longleftrightarrow> (n = 1 \<or> n = 2 \<longrightarrow> padding_zero n state)"
  proof (cases "n = 1 \<or> n = 2")
    case True
    then have "raw_size ?ss = 16" using raw_size_1 raw_size_2 by auto
    with True assms nq show ?thesis
      using round_trip_1 [of state ?ss] round_trip_2 [of state ?ss] by auto
  next
    case False
    have "16 * (raw_size ?ss div 16) \<le> length state" using assms by simp
    from round_trip_blocks [OF this] False assms nq show ?thesis
      by (simp add: InternalToNormalOrder_def NormalToInternalOrder_def)
  qed
  from 1 2 show ?thesis by blast
qed

theorem C7_round_trip_witness:
  "length zero_state_1 = raw_size (StateSpaceAVX 1)
   \<and> padding_zero 1 zero_state_1
   \<and> NormalToInternalOrder (StateSpaceAVX 1)
        (snd (InternalToNormalOrder (StateSpaceAVX 1) zero_state_1)) = (True, zero_state_1)"
proof -
  have l: "length zero_state_1 = raw_size (StateSpaceAVX 1)" by code_simp
  have z: "padding_zero 1 zero_state_1" by code_simp
  from C7_round_trip [OF l] l z show ?thesis by simp
qed


end
